theory Spec2Isabelle
  imports Main "HOL-Library.Word" "HOL-Library.Sublist"
begin

section \<open>Go values used by the entity service\<close>

text \<open>
  A value of Go's \<open>any\<close>. The service only ever asks whether such a value is a
  \<open>string\<close> (the type assertion \<open>subuserRaw.(string)\<close>), so all numeric dynamic
  types are one constructor. \<open>AnyNil\<close> is the nil interface value.
\<close>

datatype go_any =
    AnyNil
  | AnyBool bool
  | AnyNumber int
  | AnyString string
  | AnySlice "go_any list"
  | AnyMap "string \<Rightarrow> go_any option"

text \<open>A \<open>map[string]any\<close>; \<open>None\<close> is the nil map.\<close>

type_synonym go_map = "(string \<Rightarrow> go_any option) option"

text \<open>
  An \<open>error\<close> value: the text \<open>Error()\<close> returns and what \<open>Unwrap()\<close> returns.
  A Go function returning \<open>(T, error)\<close> is modelled as a pair whose second component is
  \<open>None\<close> for \<open>nil\<close>.
\<close>

datatype go_error = GoError (message: string) (unwrap: "go_error option")

text \<open>\<open>fmt.Errorf(s)\<close> for a format without verbs.\<close>

definition Errorf :: "string \<Rightarrow> go_error" where
  "Errorf s = GoError s None"

text \<open>\<open>fmt.Errorf(pre + "%w", err)\<close> for an operand that is an error.\<close>

definition Errorf_w :: "string \<Rightarrow> go_error \<Rightarrow> go_error" where
  "Errorf_w pre err = GoError (pre @ message err) (Some err)"

text \<open>
  \<open>fmt.Errorf(pre + "%w", s)\<close> for an operand \<open>s\<close> of type \<open>string\<close>: the operand
  is no error, so the verb is reported as a bad verb in the text and nothing is wrapped.
\<close>

definition Errorf_w_string :: "string \<Rightarrow> string \<Rightarrow> go_error" where
  "Errorf_w_string pre s = GoError (pre @ ''%!w(string='' @ s @ '')'') None"

section \<open>Collaborators of the entity service\<close>

text \<open>
  One constructor per method the service calls on its two collaborators, with the
  arguments of the call (the \<open>context.Context\<close> is passed through untouched and is left
  out). The parent id of \<open>UpdateUserParentID\<close> is a \<open>*string\<close>.
\<close>

datatype call =
    Call_CheckEntityPresence string
  | Call_CreateRootEntity string string string go_map
  | Call_GetCategoryIDByEntityID string
  | Call_GetCategoryType string
  | Call_CreateSubEntity string string string go_map string
  | Call_GetChildEntities string bool
  | Call_GetEntityHierarchy string
  | Call_ListEntityChildren string "64 word" string
  | Call_GetEntityID string
  | Call_UpdateUserParentID string "string option"

fun is_user_call :: "call \<Rightarrow> bool" where
  "is_user_call (Call_UpdateUserParentID u p) = True"
| "is_user_call c = False"

text \<open>
  \<open>repositories.EntityRepository\<close>: the interface is declared in a file this development does not
  cover, so its methods are parameters. \<open>'e\<close> is the state of the entity store, \<open>'ent\<close> stands
  for \<open>*domain.Entity\<close>; a nil slice is \<open>None\<close>.
\<close>

record ('e, 'ent) EntityRepository =
  repo_CheckEntityPresence :: "string \<Rightarrow> 'e \<Rightarrow> (bool \<times> go_error option) \<times> 'e"
  repo_CreateRootEntity ::
    "string \<Rightarrow> string \<Rightarrow> string \<Rightarrow> go_map \<Rightarrow> 'e \<Rightarrow> (string \<times> go_error option) \<times> 'e"
  repo_GetCategoryIDByEntityID :: "string \<Rightarrow> 'e \<Rightarrow> (string \<times> go_error option) \<times> 'e"
  repo_GetCategoryType :: "string \<Rightarrow> 'e \<Rightarrow> (string \<times> go_error option) \<times> 'e"
  repo_CreateSubEntity ::
    "string \<Rightarrow> string \<Rightarrow> string \<Rightarrow> go_map \<Rightarrow> string \<Rightarrow> 'e
       \<Rightarrow> (string \<times> go_error option) \<times> 'e"
  repo_GetChildEntities ::
    "string \<Rightarrow> bool \<Rightarrow> 'e \<Rightarrow> ('ent list option \<times> go_error option) \<times> 'e"
  repo_GetEntityHierarchy :: "string \<Rightarrow> 'e \<Rightarrow> (go_map \<times> go_error option) \<times> 'e"
  repo_ListEntityChildren ::
    "string \<Rightarrow> 64 word \<Rightarrow> string \<Rightarrow> 'e \<Rightarrow> ('ent list option \<times> go_error option) \<times> 'e"
  repo_GetEntityID :: "string \<Rightarrow> 'e \<Rightarrow> (string \<times> go_error option) \<times> 'e"

text \<open>
  \<open>EntityService\<close>. Of \<open>UserRepositoryInterface\<close> the service calls one method,
  \<open>UpdateUserParentID\<close>; the field \<open>userRepo\<close> is that method, over a user store \<open>'u\<close>.
\<close>

record ('e, 'ent, 'u) EntityService =
  repo :: "('e, 'ent) EntityRepository"
  userRepo :: "string \<Rightarrow> string option \<Rightarrow> 'u \<Rightarrow> go_error option \<times> 'u"

text \<open>
  What a call of the service can touch: the two stores, and the sequence of collaborator
  calls made so far, oldest first.
\<close>

record ('e, 'u) world =
  calls :: "call list"
  entity_store :: 'e
  user_store :: 'u

definition via_repo ::
  "call \<Rightarrow> ('e \<Rightarrow> 'a \<times> 'e) \<Rightarrow> ('e, 'u) world \<Rightarrow> 'a \<times> ('e, 'u) world" where
  "via_repo c f w =
     (case f (entity_store w) of
        (r, e') \<Rightarrow> (r, w\<lparr>calls := calls w @ [c], entity_store := e'\<rparr>))"

definition via_userRepo ::
  "call \<Rightarrow> ('u \<Rightarrow> 'a \<times> 'u) \<Rightarrow> ('e, 'u) world \<Rightarrow> 'a \<times> ('e, 'u) world" where
  "via_userRepo c f w =
     (case f (user_store w) of
        (r, u') \<Rightarrow> (r, w\<lparr>calls := calls w @ [c], user_store := u'\<rparr>))"

section \<open>The entity service\<close>

text \<open>
  \<open>if details == nil { details = make(map[string]any) }\<close>: the map the service goes
  on with.
\<close>

definition make_if_nil :: "go_map \<Rightarrow> (string \<Rightarrow> go_any option)" where
  "make_if_nil details = (case details of None \<Rightarrow> Map.empty | Some m \<Rightarrow> m)"

text \<open>The collaborator calls made between world \<open>w\<close> and a later world \<open>w'\<close>.\<close>

definition new_calls :: "('e, 'u) world \<Rightarrow> ('e, 'u) world \<Rightarrow> call list" where
  "new_calls w w' = drop (length (calls w)) (calls w')"

definition CheckEntityExists ::
  "('e, 'ent, 'u) EntityService \<Rightarrow> string \<Rightarrow> ('e, 'u) world
     \<Rightarrow> (bool \<times> go_error option) \<times> ('e, 'u) world" where
  "CheckEntityExists s userId w =
     (if userId = [] then ((False, Some (Errorf ''user ID cannot be empty'')), w)
      else via_repo (Call_CheckEntityPresence userId)
             (repo_CheckEntityPresence (repo s) userId) w)"


definition CreateSubEntity ::
  "('e, 'ent, 'u) EntityService \<Rightarrow> string \<Rightarrow> string \<Rightarrow> string \<Rightarrow> go_map \<Rightarrow> string
     \<Rightarrow> ('e, 'u) world \<Rightarrow> (string \<times> go_error option) \<times> ('e, 'u) world" where
  "CreateSubEntity s categoryId entityName userId details parentEntityID w =
     (if categoryId = [] then (([], Some (Errorf ''category ID cannot be empty'')), w)
      else if entityName = [] then (([], Some (Errorf ''entity name cannot be empty'')), w)
      else
        let details = make_if_nil details
        in
        case via_repo (Call_GetCategoryIDByEntityID parentEntityID)
               (repo_GetCategoryIDByEntityID (repo s) parentEntityID) w of
          ((parentCategoryID, Some err), w1) \<Rightarrow>
            (([], Some (Errorf_w ''failed to get parent's category ID: '' err)), w1)
        | ((parentCategoryID, None), w1) \<Rightarrow>
        (case via_repo (Call_GetCategoryType parentCategoryID)
                (repo_GetCategoryType (repo s) parentCategoryID) w1 of
          ((parentCategoryType, Some err), w2) \<Rightarrow>
            (([], Some (Errorf_w ''failed to get parent's category type: '' err)), w2)
        | ((parentCategoryType, None), w2) \<Rightarrow>
        (case via_repo (Call_GetCategoryType categoryId)
                (repo_GetCategoryType (repo s) categoryId) w2 of
          ((currentCategoryType, Some err), w3) \<Rightarrow>
            (([], Some (Errorf_w ''failed to get parent's category type: '' err)), w3)
        | ((currentCategoryType, None), w3) \<Rightarrow>
        (case via_repo
                (Call_CreateSubEntity categoryId entityName userId (Some details) parentEntityID)
                (repo_CreateSubEntity (repo s) categoryId entityName userId (Some details)
                   parentEntityID) w3 of
          ((subentityID, Some err), wd) \<Rightarrow>
            (([], Some (Errorf_w ''failed to create sub-entity: '' err)), wd)
        | ((subentityID, None), wd) \<Rightarrow>
            if parentCategoryType = ''user'' \<and> currentCategoryType = ''user'' then
              (case details ''subuser_id'' of
                 None \<Rightarrow>
                   (([], Some (Errorf_w_string ''subuser_id not found in details : ''
                                 parentCategoryType)), wd)
               | Some subuserRaw \<Rightarrow>
                   (case subuserRaw of
                      AnyString subuserID \<Rightarrow>
                        (case via_userRepo
                                (Call_UpdateUserParentID subuserID (Some parentEntityID))
                                (userRepo s subuserID (Some parentEntityID)) wd of
                           (Some err, w5) \<Rightarrow>
                             (([], Some (Errorf_w ''failed to update user parent ID: '' err)), w5)
                         | (None, w5) \<Rightarrow> ((subentityID, None), w5))
                    | _ \<Rightarrow> (([], Some (Errorf ''subuser_id must be a string'')), wd)))
            else ((subentityID, None), wd)))))"

definition GetChildEntities ::
  "('e, 'ent, 'u) EntityService \<Rightarrow> string \<Rightarrow> bool \<Rightarrow> ('e, 'u) world
     \<Rightarrow> ('ent list option \<times> go_error option) \<times> ('e, 'u) world" where
  "GetChildEntities s entityId recursive w =
     (if entityId = [] then ((None, Some (Errorf ''entity ID cannot be empty'')), w)
      else via_repo (Call_GetChildEntities entityId recursive)
             (repo_GetChildEntities (repo s) entityId recursive) w)"

definition GetEntityHierarchy ::
  "('e, 'ent, 'u) EntityService \<Rightarrow> string \<Rightarrow> ('e, 'u) world
     \<Rightarrow> (go_map \<times> go_error option) \<times> ('e, 'u) world" where
  "GetEntityHierarchy s rootEntityId w =
     (if rootEntityId = [] then ((None, Some (Errorf ''root entity ID cannot be empty'')), w)
      else via_repo (Call_GetEntityHierarchy rootEntityId)
             (repo_GetEntityHierarchy (repo s) rootEntityId) w)"

text \<open>\<open>level\<close> is a Go \<open>int\<close>; the comparison \<open>level < -1\<close> is the signed one.\<close>

definition ListEntityChildren ::
  "('e, 'ent, 'u) EntityService \<Rightarrow> string \<Rightarrow> 64 word \<Rightarrow> string \<Rightarrow> ('e, 'u) world
     \<Rightarrow> ('ent list option \<times> go_error option) \<times> ('e, 'u) world" where
  "ListEntityChildren s entityId level categoryType w =
     (if entityId = [] then ((None, Some (Errorf ''entity ID cannot be empty'')), w)
      else if level <s - 1 then
        ((None, Some (Errorf
           ''invalid level: must be -1 (all levels), 0 (direct children only), or a positive integer'')),
         w)
      else via_repo (Call_ListEntityChildren entityId level categoryType)
             (repo_ListEntityChildren (repo s) entityId level categoryType) w)"

definition GetEntityID ::
  "('e, 'ent, 'u) EntityService \<Rightarrow> string \<Rightarrow> ('e, 'u) world
     \<Rightarrow> (string \<times> go_error option) \<times> ('e, 'u) world" where
  "GetEntityID s userId w =
     (if userId = [] then (([], Some (Errorf ''user ID is empty'')), w)
      else via_repo (Call_GetEntityID userId) (repo_GetEntityID (repo s) userId) w)"

section \<open>The user repository\<close>

text \<open>
  The columns of table \<open>z_users\<close> that \<open>UpdateUserParentID\<close> reads or writes.
\<close>

record z_user =
  user_id :: string
  parent_id :: "string option"
  updated_at :: nat

text \<open>
  The connection pool behind \<open>r.db\<close>, as far as \<open>UpdateUserParentID\<close> sees it: the
  rows of \<open>z_users\<close>, the value of \<open>NOW()\<close>, and the error \<open>Exec\<close> returns when the
  statement cannot be run (\<open>None\<close> when it can).
\<close>

record pgxpool =
  z_users :: "z_user list"
  clock :: nat
  exec_failure :: "go_error option"

text \<open>
  \<open>r.db.Exec(ctx, query, parentID, userID)\<close> for the query
  \<open>UPDATE z_users SET parent_id = $1, updated_at = NOW() WHERE user_id = $2\<close>:
  the number of rows affected and the error, and the pool afterwards.
\<close>

definition Exec_update_parent_id ::
  "pgxpool \<Rightarrow> string option \<Rightarrow> string \<Rightarrow> (nat \<times> go_error option) \<times> pgxpool" where
  "Exec_update_parent_id pool parentID userID =
     (case exec_failure pool of
        Some err \<Rightarrow> ((0, Some err), pool)
      | None \<Rightarrow>
          ((length (filter (\<lambda>r. user_id r = userID) (z_users pool)), None),
           pool\<lparr>z_users :=
             map (\<lambda>r. if user_id r = userID
                       then r\<lparr>parent_id := parentID, updated_at := clock pool\<rparr> else r)
                 (z_users pool)\<rparr>))"

text \<open>
  \<open>UserRepository\<close> (its field \<open>db\<close>, \<open>None\<close> for a nil pool) together with what
  the standard logger has printed, oldest line first.
\<close>

record user_env =
  db :: "pgxpool option"
  log_output :: "string list"

definition log_Println :: "string \<Rightarrow> user_env \<Rightarrow> user_env" where
  "log_Println line r = r\<lparr>log_output := log_output r @ [line]\<rparr>"

definition UpdateUserParentID ::
  "string \<Rightarrow> string option \<Rightarrow> user_env \<Rightarrow> go_error option \<times> user_env" where
  "UpdateUserParentID userID parentID r =
     (let r1 = log_Println ''ERROR: r.db is nil in UpdateUserParentID!'' r
      in case db r1 of
           None \<Rightarrow>
             (Some (Errorf ''database connection is not initialized''),
              log_Println ''ERROR: r.db is nil in UpdateUserParentID!'' r1)
         | Some pool \<Rightarrow>
             (case Exec_update_parent_id pool parentID userID of
                ((rowsAffected, Some err), pool') \<Rightarrow>
                  (Some (Errorf_w (''error updating user parent_id for user '' @ userID @ '': '')
                           err),
                   r1\<lparr>db := Some pool'\<rparr>)
              | ((rowsAffected, None), pool') \<Rightarrow>
                  (None,
                   if rowsAffected = 0
                   then log_Println
                          (''Warning: No user found with ID '' @ userID @ '' to update parent_id'')
                          (r1\<lparr>db := Some pool'\<rparr>)
                   else r1\<lparr>db := Some pool'\<rparr>)))"

section \<open>The entity store of the specification\<close>

text \<open>
  Modelled from the spec: the Entity of section 3, which stands for \<open>domain.Entity\<close>
  (declared in a file this development does not cover): identifier, name, category identifier, optional parent
  identifier, owning user identifier, depth and detail payload. Timestamps are left out.
\<close>

record entity =
  ent_id :: string
  ent_name :: string
  ent_category_id :: string
  ent_parent_id :: "string option"
  ent_user_id :: string
  ent_depth :: nat
  ent_details :: go_map

text \<open>
  Modelled from the spec: the Category of section 3: identifier, name and semantic type.
\<close>

record category =
  cat_id :: string
  cat_name :: string
  cat_type :: string

text \<open>
  Modelled from the spec: the durable state behind \<open>EntityRepository\<close>, whose
  implementation is in a file this development does not cover: the entities, the categories, and
  \<open>outage\<close>, the StorageError every operation fails with while the underlying storage
  is failing (\<open>None\<close> when storage works).
\<close>

record store =
  entities :: "entity list"
  categories :: "category list"
  outage :: "go_error option"

text \<open>
  Modelled from the spec: the NotFound error of sections 4.1 and 7; its text is not
  specified.
\<close>

definition NotFound :: "string \<Rightarrow> go_error" where
  "NotFound what = GoError (what @ '' not found'') None"

text \<open>
  Modelled from the spec: \<open>CheckPresence(user_id) -> bool\<close> of the Entity Store, the
  storage presence check: whether some entity is owned by the user.
\<close>

definition store_CheckPresence :: "string \<Rightarrow> store \<Rightarrow> (bool \<times> go_error option) \<times> store" where
  "store_CheckPresence userId st =
     (case outage st of
        Some err \<Rightarrow> ((False, Some err), st)
      | None \<Rightarrow> ((list_ex (\<lambda>e. ent_user_id e = userId) (entities st), None), st))"

text \<open>
  Modelled from the spec: \<open>CreateRoot(category_id, name, owner, details) -> id\<close> of the
  Entity Store: persists a new entity with parent = none and depth = 0. Identifiers are
  opaque; \<open>gen\<close> chooses the new one.
\<close>

definition store_CreateRoot ::
  "(store \<Rightarrow> string) \<Rightarrow> string \<Rightarrow> string \<Rightarrow> string \<Rightarrow> go_map \<Rightarrow> store
     \<Rightarrow> (string \<times> go_error option) \<times> store" where
  "store_CreateRoot gen categoryId entityName userId details st =
     (case outage st of
        Some err \<Rightarrow> (([], Some err), st)
      | None \<Rightarrow>
          ((gen st, None),
           st\<lparr>entities := entities st @
                [\<lparr>ent_id = gen st, ent_name = entityName, ent_category_id = categoryId,
                  ent_parent_id = None, ent_user_id = userId, ent_depth = 0,
                  ent_details = details\<rparr>]\<rparr>))"

text \<open>
  Modelled from the spec: \<open>resolve_entity_category(entity_id) -> category_id\<close>
  (\<open>GetCategoryIdForEntity\<close>): fails with NotFound if the entity does not exist.
\<close>

definition store_GetCategoryIdForEntity ::
  "string \<Rightarrow> store \<Rightarrow> (string \<times> go_error option) \<times> store" where
  "store_GetCategoryIdForEntity entityId st =
     (case outage st of
        Some err \<Rightarrow> (([], Some err), st)
      | None \<Rightarrow>
          (case find (\<lambda>e. ent_id e = entityId) (entities st) of
             None \<Rightarrow> (([], Some (NotFound ''entity'')), st)
           | Some e \<Rightarrow> ((ent_category_id e, None), st)))"

text \<open>
  Modelled from the spec: \<open>resolve_category_type(category_id) -> type\<close> (\<open>GetType\<close>):
  fails with NotFound if the category does not exist.
\<close>

definition store_GetType :: "string \<Rightarrow> store \<Rightarrow> (string \<times> go_error option) \<times> store" where
  "store_GetType categoryId st =
     (case outage st of
        Some err \<Rightarrow> (([], Some err), st)
      | None \<Rightarrow>
          (case find (\<lambda>c. cat_id c = categoryId) (categories st) of
             None \<Rightarrow> (([], Some (NotFound ''category'')), st)
           | Some c \<Rightarrow> ((cat_type c, None), st)))"

text \<open>
  Modelled from the spec: \<open>CreateSub(category_id, name, owner, details, parent_id) -> id\<close>
  of the Entity Store: the parent must exist; persists a new entity with
  parent = parent_id and depth = parent.depth + 1.
\<close>

definition store_CreateSub ::
  "(store \<Rightarrow> string) \<Rightarrow> string \<Rightarrow> string \<Rightarrow> string \<Rightarrow> go_map \<Rightarrow> string \<Rightarrow> store
     \<Rightarrow> (string \<times> go_error option) \<times> store" where
  "store_CreateSub gen categoryId entityName userId details parentId st =
     (case outage st of
        Some err \<Rightarrow> (([], Some err), st)
      | None \<Rightarrow>
          (case find (\<lambda>e. ent_id e = parentId) (entities st) of
             None \<Rightarrow> (([], Some (NotFound ''entity'')), st)
           | Some p \<Rightarrow>
               ((gen st, None),
                st\<lparr>entities := entities st @
                     [\<lparr>ent_id = gen st, ent_name = entityName, ent_category_id = categoryId,
                       ent_parent_id = Some parentId, ent_user_id = userId,
                       ent_depth = ent_depth p + 1, ent_details = details\<rparr>]\<rparr>)))"

text \<open>
  Modelled from the spec: an \<open>EntityRepository\<close> over the store above, built from the
  five operations just defined. The traversal queries and \<open>GetEntityID\<close> are not
  modelled; here they answer with an empty result.
\<close>

definition mem_repo :: "(store \<Rightarrow> string) \<Rightarrow> (store, entity) EntityRepository" where
  "mem_repo gen =
     \<lparr>repo_CheckEntityPresence = store_CheckPresence,
      repo_CreateRootEntity = store_CreateRoot gen,
      repo_GetCategoryIDByEntityID = store_GetCategoryIdForEntity,
      repo_GetCategoryType = store_GetType,
      repo_CreateSubEntity = store_CreateSub gen,
      repo_GetChildEntities = (\<lambda>entityId recursive st. ((Some [], None), st)),
      repo_GetEntityHierarchy = (\<lambda>rootEntityId st. ((Some Map.empty, None), st)),
      repo_ListEntityChildren = (\<lambda>entityId level categoryType st. ((Some [], None), st)),
      repo_GetEntityID = (\<lambda>userId st. (([], None), st))\<rparr>"

section \<open>A small installation\<close>

text \<open>
  Two categories, one of type \<open>user\<close> and one of type \<open>organization\<close>; a root entity
  \<open>e7\<close> of the first and a root entity \<open>ea\<close> of the second; one user row \<open>u42\<close>.
  New entities get the identifier \<open>e99\<close>.
\<close>

definition demo_store :: store where
  "demo_store =
     \<lparr>entities =
        [\<lparr>ent_id = ''e7'', ent_name = ''alice'', ent_category_id = ''c-user'',
          ent_parent_id = None, ent_user_id = ''u1'', ent_depth = 0,
          ent_details = Some Map.empty\<rparr>,
         \<lparr>ent_id = ''e1'', ent_name = ''acme'', ent_category_id = ''c-org'',
          ent_parent_id = None, ent_user_id = ''u1'', ent_depth = 0,
          ent_details = Some Map.empty\<rparr>],
      categories =
        [\<lparr>cat_id = ''c-user'', cat_name = ''User'', cat_type = ''user''\<rparr>,
         \<lparr>cat_id = ''c-org'', cat_name = ''Organization'', cat_type = ''organization''\<rparr>],
      outage = None\<rparr>"

definition demo_users :: user_env where
  "demo_users =
     \<lparr>db = Some \<lparr>z_users = [\<lparr>user_id = ''u42'', parent_id = None, updated_at = 0\<rparr>],
                 clock = 5, exec_failure = None\<rparr>,
      log_output = []\<rparr>"

definition demo_service :: "(store, entity, user_env) EntityService" where
  "demo_service = \<lparr>repo = mem_repo (\<lambda>st. ''e99''), userRepo = UpdateUserParentID\<rparr>"

definition demo_world :: "(store, user_env) world" where
  "demo_world = \<lparr>calls = [], entity_store = demo_store, user_store = demo_users\<rparr>"

text \<open>The same installation with a user repository whose pool is nil.\<close>

definition demo_world_no_db :: "(store, user_env) world" where
  "demo_world_no_db =
     \<lparr>calls = [], entity_store = demo_store,
      user_store = \<lparr>db = None, log_output = []\<rparr>\<rparr>"

text \<open>The same installation after the category table has been emptied.\<close>

definition demo_world_no_categories :: "(store, user_env) world" where
  "demo_world_no_categories =
     \<lparr>calls = [],
      entity_store =
        \<lparr>entities = entities demo_store, categories = [], outage = None\<rparr>,
      user_store = demo_users\<rparr>"

text \<open>Detail payloads: naming user \<open>u42\<close>, naming the unknown user \<open>u77\<close>, carrying
  a number, and carrying no \<open>subuser_id\<close> at all.\<close>

definition details_u42 :: go_map where
  "details_u42 = Some [''subuser_id'' \<mapsto> AnyString ''u42'']"

definition details_u77 :: go_map where
  "details_u77 = Some [''subuser_id'' \<mapsto> AnyString ''u77'']"

definition details_number :: go_map where
  "details_number = Some [''subuser_id'' \<mapsto> AnyNumber 42]"

definition details_plain :: go_map where
  "details_plain = Some [''colour'' \<mapsto> AnyString ''red'']"

text \<open>
  The same service over an entity repository whose look-ups work and whose
  \<open>CreateSubEntity\<close> fails with a storage error, leaving the store as it was.
\<close>

definition demo_service_disk_full :: "(store, entity, user_env) EntityService" where
  "demo_service_disk_full =
     \<lparr>repo = (mem_repo (\<lambda>st. ''e99''))
        \<lparr>repo_CreateSubEntity :=
           (\<lambda>categoryId entityName userId details parentId st.
              (([], Some (GoError ''disk full'' None)), st))\<rparr>,
      userRepo = UpdateUserParentID\<rparr>"

lemmas demo_defs =
  demo_world_def demo_service_def demo_users_def demo_store_def mem_repo_def
  store_CheckPresence_def store_CreateRoot_def store_GetCategoryIdForEntity_def
  store_GetType_def store_CreateSub_def NotFound_def
  UpdateUserParentID_def Exec_update_parent_id_def log_Println_def
  via_repo_def via_userRepo_def Errorf_def Errorf_w_def Errorf_w_string_def
  make_if_nil_def new_calls_def

section \<open>Unfolding \<open>CreateSubEntity\<close> step by step\<close>

lemma CreateSubEntity_invalid:
  assumes "categoryId = [] \<or> entityName = []"
  shows "snd (CreateSubEntity s categoryId entityName userId details parentEntityID w) = w"
  using assms by (auto simp: CreateSubEntity_def)

lemma CreateSubEntity_fail_parent_category:
  assumes "categoryId \<noteq> []" and "entityName \<noteq> []"
    and "repo_GetCategoryIDByEntityID (repo s) parentEntityID (entity_store w) =
           ((pcid, Some err), ea)"
  shows "CreateSubEntity s categoryId entityName userId details parentEntityID w =
           (([], Some (Errorf_w ''failed to get parent's category ID: '' err)),
            w\<lparr>calls := calls w @ [Call_GetCategoryIDByEntityID parentEntityID],
              entity_store := ea\<rparr>)"
  using assms by (simp add: CreateSubEntity_def via_repo_def)

lemma CreateSubEntity_fail_parent_type:
  assumes "categoryId \<noteq> []" and "entityName \<noteq> []"
    and "repo_GetCategoryIDByEntityID (repo s) parentEntityID (entity_store w) = ((pcid, None), ea)"
    and "repo_GetCategoryType (repo s) pcid ea = ((ptype, Some err), eb)"
  shows "CreateSubEntity s categoryId entityName userId details parentEntityID w =
           (([], Some (Errorf_w ''failed to get parent's category type: '' err)),
            w\<lparr>calls := calls w @
                [Call_GetCategoryIDByEntityID parentEntityID, Call_GetCategoryType pcid],
              entity_store := eb\<rparr>)"
  using assms by (simp add: CreateSubEntity_def via_repo_def)

lemma CreateSubEntity_fail_current_type:
  assumes "categoryId \<noteq> []" and "entityName \<noteq> []"
    and "repo_GetCategoryIDByEntityID (repo s) parentEntityID (entity_store w) = ((pcid, None), ea)"
    and "repo_GetCategoryType (repo s) pcid ea = ((ptype, None), eb)"
    and "repo_GetCategoryType (repo s) categoryId eb = ((ctype, Some err), ec)"
  shows "CreateSubEntity s categoryId entityName userId details parentEntityID w =
           (([], Some (Errorf_w ''failed to get parent's category type: '' err)),
            w\<lparr>calls := calls w @
                [Call_GetCategoryIDByEntityID parentEntityID, Call_GetCategoryType pcid,
                 Call_GetCategoryType categoryId],
              entity_store := ec\<rparr>)"
  using assms by (simp add: CreateSubEntity_def via_repo_def)

lemma CreateSubEntity_resolved:
  assumes "categoryId \<noteq> []" and "entityName \<noteq> []"
    and "repo_GetCategoryIDByEntityID (repo s) parentEntityID (entity_store w) = ((pcid, None), ea)"
    and "repo_GetCategoryType (repo s) pcid ea = ((ptype, None), eb)"
    and "repo_GetCategoryType (repo s) categoryId eb = ((ctype, None), ec)"
    and "repo_CreateSubEntity (repo s) categoryId entityName userId (Some (make_if_nil details))
           parentEntityID ec = ((sid, perr), ed)"
  shows "CreateSubEntity s categoryId entityName userId details parentEntityID w =
     (let wd = w\<lparr>calls := calls w @
                  [Call_GetCategoryIDByEntityID parentEntityID, Call_GetCategoryType pcid,
                   Call_GetCategoryType categoryId,
                   Call_CreateSubEntity categoryId entityName userId (Some (make_if_nil details))
                     parentEntityID],
                entity_store := ed\<rparr>
      in case perr of
           Some err \<Rightarrow> (([], Some (Errorf_w ''failed to create sub-entity: '' err)), wd)
         | None \<Rightarrow>
             if ptype = ''user'' \<and> ctype = ''user'' then
               (case make_if_nil details ''subuser_id'' of
                  None \<Rightarrow>
                    (([], Some (Errorf_w_string ''subuser_id not found in details : '' ptype)), wd)
                | Some (AnyString subuserID) \<Rightarrow>
                    (case userRepo s subuserID (Some parentEntityID) (user_store w) of
                       (Some err, u') \<Rightarrow>
                         (([], Some (Errorf_w ''failed to update user parent ID: '' err)),
                          wd\<lparr>calls := calls wd @
                                 [Call_UpdateUserParentID subuserID (Some parentEntityID)],
                               user_store := u'\<rparr>)
                     | (None, u') \<Rightarrow>
                         ((sid, None),
                          wd\<lparr>calls := calls wd @
                                 [Call_UpdateUserParentID subuserID (Some parentEntityID)],
                               user_store := u'\<rparr>))
                | Some _ \<Rightarrow> (([], Some (Errorf ''subuser_id must be a string'')), wd))
             else ((sid, None), wd))"
  using assms
  by (auto simp: CreateSubEntity_def via_repo_def via_userRepo_def Let_def
           split: option.splits go_any.splits prod.splits)

lemma new_calls_same [simp]: "new_calls w w = []"
  by (simp add: new_calls_def)

lemma new_calls_append [simp]: "new_calls w (w\<lparr>calls := calls w @ cs, entity_store := e\<rparr>) = cs"
  by (simp add: new_calls_def)

text \<open>An update that matches no row leaves the table as it is.\<close>

lemma update_no_match:
  "\<not> list_ex (\<lambda>row. user_id row = userID) rows \<Longrightarrow>
   map (\<lambda>row. if user_id row = userID then f row else row) rows = rows"
  by (induction rows) auto

lemma count_no_match:
  "\<not> list_ex (\<lambda>row. user_id row = userID) rows \<Longrightarrow>
   filter (\<lambda>row. user_id row = userID) rows = []"
  by (induction rows) auto

section \<open>Presence check, hierarchy and listing\<close>

text \<open>
  C8: \<open>CheckEntityExists\<close> with an empty user id fails with the validation error and
  leaves the world as it was, so the store is not consulted. With a non-empty user id the
  call is exactly one call of the store's presence check on the store as it is now, and
  the answer of that check is returned as it is. Over the store of the specification, a
  user id that owns no entity gives \<open>false\<close> and no error.
\<close>

theorem CheckEntityExists_live_lookup:
  "CheckEntityExists s [] w = ((False, Some (Errorf ''user ID cannot be empty'')), w)
   \<and> (userId \<noteq> [] \<longrightarrow>
        CheckEntityExists s userId w =
          (fst (repo_CheckEntityPresence (repo s) userId (entity_store w)),
           w\<lparr>calls := calls w @ [Call_CheckEntityPresence userId],
             entity_store := snd (repo_CheckEntityPresence (repo s) userId (entity_store w))\<rparr>))
   \<and> (userId \<noteq> [] \<and> repo_CheckEntityPresence (repo t) = store_CheckPresence
        \<and> outage (entity_store v) = None
        \<and> \<not> list_ex (\<lambda>e. ent_user_id e = userId) (entities (entity_store v)) \<longrightarrow>
        fst (CheckEntityExists t userId v) = (False, None))"
  by (simp add: CheckEntityExists_def via_repo_def store_CheckPresence_def split: prod.splits)

theorem CheckEntityExists_live_lookup_witness:
  "''nonexistent-id'' \<noteq> []
   \<and> repo_CheckEntityPresence (repo demo_service) = store_CheckPresence
   \<and> outage (entity_store demo_world) = None
   \<and> \<not> list_ex (\<lambda>e. ent_user_id e = ''nonexistent-id'') (entities (entity_store demo_world))
   \<and> CheckEntityExists demo_service ''nonexistent-id'' demo_world =
       ((False, None), demo_world\<lparr>calls := [Call_CheckEntityPresence ''nonexistent-id'']\<rparr>)"
  using CheckEntityExists_live_lookup
          [of demo_service demo_world "''nonexistent-id''" demo_service demo_world]
  by (simp add: demo_defs)

text \<open>
  C10: \<open>GetEntityHierarchy\<close> with an empty root entity id fails with the validation error
  "root entity ID cannot be empty", returns no document, and leaves the world as it was:
  no call reaches the entity store.
\<close>

theorem GetEntityHierarchy_empty_id:
  "GetEntityHierarchy s [] w = ((None, Some (Errorf ''root entity ID cannot be empty'')), w)"
  by (simp add: GetEntityHierarchy_def)

text \<open>
  C6: \<open>ListEntityChildren\<close> with a non-empty entity id. If \<open>level < -1\<close> the call fails
  with the validation error and leaves the world as it was, so the store is not consulted.
  Otherwise (level \<open>-1\<close>, \<open>0\<close> or positive) the call is exactly one call of the store's
  \<open>ListEntityChildren\<close> with the same entity id, level and category type, and the store's
  answer is returned as it is.
\<close>

theorem ListEntityChildren_level:
  "entityId \<noteq> [] \<Longrightarrow>
   (level <s - 1 \<longrightarrow>
      ListEntityChildren s entityId level categoryType w =
        ((None, Some (Errorf
           ''invalid level: must be -1 (all levels), 0 (direct children only), or a positive integer'')),
         w))
   \<and> (\<not> level <s - 1 \<longrightarrow>
      ListEntityChildren s entityId level categoryType w =
        (fst (repo_ListEntityChildren (repo s) entityId level categoryType (entity_store w)),
         w\<lparr>calls := calls w @ [Call_ListEntityChildren entityId level categoryType],
           entity_store :=
             snd (repo_ListEntityChildren (repo s) entityId level categoryType
                    (entity_store w))\<rparr>))"
  by (simp add: ListEntityChildren_def via_repo_def split: prod.splits)

theorem ListEntityChildren_level_witness:
  "''e7'' \<noteq> [] \<and> (- 2 :: 64 word) <s - 1 \<and> \<not> (3 :: 64 word) <s - 1
   \<and> fst (ListEntityChildren demo_service ''e7'' (- 2) ''user'' demo_world) =
       (None, Some (Errorf
          ''invalid level: must be -1 (all levels), 0 (direct children only), or a positive integer''))
   \<and> snd (ListEntityChildren demo_service ''e7'' (- 2) ''user'' demo_world) = demo_world
   \<and> calls (snd (ListEntityChildren demo_service ''e7'' 3 ''user'' demo_world)) =
       [Call_ListEntityChildren ''e7'' 3 ''user'']"
  using ListEntityChildren_level [of "''e7''" "- 2" demo_service "''user''" demo_world]
        ListEntityChildren_level [of "''e7''" 3 demo_service "''user''" demo_world]
  by (simp add: word_sless_alt demo_defs)

section \<open>Creating a sub-entity: order of the steps\<close>

text \<open>
  C5: \<open>CreateSubEntity\<close> with a non-empty category id and name resolves the parent
  entity's category id, then the type of that category, then the type of the new entity's
  own category, then persists, and only then may cross-link. Whatever the three
  resolutions answer (their answers are named by the three hypotheses): if the first fails,
  the call returns the wrapped error after that single store call; if the second fails,
  after the first two; if the third fails, after the three; in none of these cases is the
  store's \<open>CreateSubEntity\<close> called, and the store is left as the failing resolution left
  it. If all three succeed, the store's \<open>CreateSubEntity\<close> is run on the store the third
  resolution left, as the fourth call. If it fails, the call returns its wrapped error and
  the store is as that step left it. If it succeeds and the two category types are not
  both \<open>user\<close>, its id is returned and nothing else is called. If both are \<open>user\<close>
  and there is no string under \<open>subuser_id\<close>, the call fails after those four calls.
  If both are \<open>user\<close> and there is such a string, the user repository's
  \<open>UpdateUserParentID\<close> is run as the fifth call, on the user store as it was, the user
  store is what that step left, and the call returns the persisted id or that step's
  wrapped error. In every case the first four calls are the three resolutions and the
  persistence call, in this order, and any later call is a call of the user repository.
\<close>

theorem CreateSubEntity_order:
  assumes "categoryId \<noteq> []" and "entityName \<noteq> []"
    and "repo_GetCategoryIDByEntityID (repo s) parentEntityID (entity_store w) = ((pcid, erra), ea)"
    and "repo_GetCategoryType (repo s) pcid ea = ((ptype, errb), eb)"
    and "repo_GetCategoryType (repo s) categoryId eb = ((ctype, errc), ec)"
  shows
    "(\<forall>err. erra = Some err \<longrightarrow>
        CreateSubEntity s categoryId entityName userId details parentEntityID w =
          (([], Some (Errorf_w ''failed to get parent's category ID: '' err)),
           w\<lparr>calls := calls w @ [Call_GetCategoryIDByEntityID parentEntityID],
             entity_store := ea\<rparr>))
     \<and> (\<forall>err. erra = None \<and> errb = Some err \<longrightarrow>
        CreateSubEntity s categoryId entityName userId details parentEntityID w =
          (([], Some (Errorf_w ''failed to get parent's category type: '' err)),
           w\<lparr>calls := calls w @
               [Call_GetCategoryIDByEntityID parentEntityID, Call_GetCategoryType pcid],
             entity_store := eb\<rparr>))
     \<and> (\<forall>err. erra = None \<and> errb = None \<and> errc = Some err \<longrightarrow>
        CreateSubEntity s categoryId entityName userId details parentEntityID w =
          (([], Some (Errorf_w ''failed to get parent's category type: '' err)),
           w\<lparr>calls := calls w @
               [Call_GetCategoryIDByEntityID parentEntityID, Call_GetCategoryType pcid,
                Call_GetCategoryType categoryId],
             entity_store := ec\<rparr>))
     \<and> (erra = None \<and> errb = None \<and> errc = None \<longrightarrow>
        take 4 (new_calls w
                  (snd (CreateSubEntity s categoryId entityName userId details parentEntityID w))) =
          [Call_GetCategoryIDByEntityID parentEntityID, Call_GetCategoryType pcid,
           Call_GetCategoryType categoryId,
           Call_CreateSubEntity categoryId entityName userId (Some (make_if_nil details))
             parentEntityID]
        \<and> list_all is_user_call
            (drop 4 (new_calls w
               (snd (CreateSubEntity s categoryId entityName userId details parentEntityID w)))))
     \<and> (\<forall>sid perr ed.
          erra = None \<and> errb = None \<and> errc = None
          \<and> repo_CreateSubEntity (repo s) categoryId entityName userId
                (Some (make_if_nil details)) parentEntityID ec = ((sid, perr), ed) \<longrightarrow>
          (\<forall>err. perr = Some err \<longrightarrow>
             CreateSubEntity s categoryId entityName userId details parentEntityID w =
               (([], Some (Errorf_w ''failed to create sub-entity: '' err)),
                w\<lparr>calls := calls w @
                    [Call_GetCategoryIDByEntityID parentEntityID, Call_GetCategoryType pcid,
                     Call_GetCategoryType categoryId,
                     Call_CreateSubEntity categoryId entityName userId
                       (Some (make_if_nil details)) parentEntityID],
                  entity_store := ed\<rparr>))
          \<and> (perr = None \<and> \<not> (ptype = ''user'' \<and> ctype = ''user'') \<longrightarrow>
             CreateSubEntity s categoryId entityName userId details parentEntityID w =
               ((sid, None),
                w\<lparr>calls := calls w @
                    [Call_GetCategoryIDByEntityID parentEntityID, Call_GetCategoryType pcid,
                     Call_GetCategoryType categoryId,
                     Call_CreateSubEntity categoryId entityName userId
                       (Some (make_if_nil details)) parentEntityID],
                  entity_store := ed\<rparr>))
          \<and> (perr = None \<and> ptype = ''user'' \<and> ctype = ''user''
               \<and> (\<forall>subuserID. make_if_nil details ''subuser_id'' \<noteq> Some (AnyString subuserID))
             \<longrightarrow>
             fst (fst (CreateSubEntity s categoryId entityName userId details parentEntityID w))
               = []
             \<and> snd (fst (CreateSubEntity s categoryId entityName userId details parentEntityID w))
                 \<noteq> None
             \<and> snd (CreateSubEntity s categoryId entityName userId details parentEntityID w) =
               w\<lparr>calls := calls w @
                   [Call_GetCategoryIDByEntityID parentEntityID, Call_GetCategoryType pcid,
                    Call_GetCategoryType categoryId,
                    Call_CreateSubEntity categoryId entityName userId
                      (Some (make_if_nil details)) parentEntityID],
                 entity_store := ed\<rparr>)
          \<and> (\<forall>subuserID. perr = None \<and> ptype = ''user'' \<and> ctype = ''user''
               \<and> make_if_nil details ''subuser_id'' = Some (AnyString subuserID) \<longrightarrow>
             fst (CreateSubEntity s categoryId entityName userId details parentEntityID w) =
               (case fst (userRepo s subuserID (Some parentEntityID) (user_store w)) of
                  None \<Rightarrow> (sid, None)
                | Some err \<Rightarrow> ([], Some (Errorf_w ''failed to update user parent ID: '' err)))
             \<and> snd (CreateSubEntity s categoryId entityName userId details parentEntityID w) =
               w\<lparr>calls := calls w @
                   [Call_GetCategoryIDByEntityID parentEntityID, Call_GetCategoryType pcid,
                    Call_GetCategoryType categoryId,
                    Call_CreateSubEntity categoryId entityName userId
                      (Some (make_if_nil details)) parentEntityID,
                    Call_UpdateUserParentID subuserID (Some parentEntityID)],
                 entity_store := ed,
                 user_store :=
                   snd (userRepo s subuserID (Some parentEntityID) (user_store w))\<rparr>))"
proof -
  have f1: "\<forall>err. erra = Some err \<longrightarrow>
        CreateSubEntity s categoryId entityName userId details parentEntityID w =
          (([], Some (Errorf_w ''failed to get parent's category ID: '' err)),
           w\<lparr>calls := calls w @ [Call_GetCategoryIDByEntityID parentEntityID],
             entity_store := ea\<rparr>)"
    using assms by (simp add: CreateSubEntity_fail_parent_category)
  have f2: "\<forall>err. erra = None \<and> errb = Some err \<longrightarrow>
        CreateSubEntity s categoryId entityName userId details parentEntityID w =
          (([], Some (Errorf_w ''failed to get parent's category type: '' err)),
           w\<lparr>calls := calls w @
               [Call_GetCategoryIDByEntityID parentEntityID, Call_GetCategoryType pcid],
             entity_store := eb\<rparr>)"
    using assms by (simp add: CreateSubEntity_fail_parent_type)
  have f3: "\<forall>err. erra = None \<and> errb = None \<and> errc = Some err \<longrightarrow>
        CreateSubEntity s categoryId entityName userId details parentEntityID w =
          (([], Some (Errorf_w ''failed to get parent's category type: '' err)),
           w\<lparr>calls := calls w @
               [Call_GetCategoryIDByEntityID parentEntityID, Call_GetCategoryType pcid,
                Call_GetCategoryType categoryId],
             entity_store := ec\<rparr>)"
    using assms by (simp add: CreateSubEntity_fail_current_type [where ptype = ptype])
  have f4: "erra = None \<and> errb = None \<and> errc = None \<longrightarrow>
        take 4 (new_calls w
                  (snd (CreateSubEntity s categoryId entityName userId details parentEntityID w))) =
          [Call_GetCategoryIDByEntityID parentEntityID, Call_GetCategoryType pcid,
           Call_GetCategoryType categoryId,
           Call_CreateSubEntity categoryId entityName userId (Some (make_if_nil details))
             parentEntityID]
        \<and> list_all is_user_call
            (drop 4 (new_calls w
               (snd (CreateSubEntity s categoryId entityName userId details parentEntityID w))))"
  proof
    assume ok: "erra = None \<and> errb = None \<and> errc = None"
    with assms have a:
      "repo_GetCategoryIDByEntityID (repo s) parentEntityID (entity_store w) = ((pcid, None), ea)"
      "repo_GetCategoryType (repo s) pcid ea = ((ptype, None), eb)"
      "repo_GetCategoryType (repo s) categoryId eb = ((ctype, None), ec)"
      by simp_all
    obtain sid perr ed where p:
      "repo_CreateSubEntity (repo s) categoryId entityName userId (Some (make_if_nil details))
         parentEntityID ec = ((sid, perr), ed)"
      by (metis surj_pair)
    note r = CreateSubEntity_resolved [OF assms(1,2) a p]
    show "take 4 (new_calls w
                  (snd (CreateSubEntity s categoryId entityName userId details parentEntityID w))) =
          [Call_GetCategoryIDByEntityID parentEntityID, Call_GetCategoryType pcid,
           Call_GetCategoryType categoryId,
           Call_CreateSubEntity categoryId entityName userId (Some (make_if_nil details))
             parentEntityID]
        \<and> list_all is_user_call
            (drop 4 (new_calls w
               (snd (CreateSubEntity s categoryId entityName userId details parentEntityID w))))"
      by (simp add: r new_calls_def Let_def split: option.splits go_any.splits prod.splits)
  qed
  have f5: "\<forall>sid perr ed.
          erra = None \<and> errb = None \<and> errc = None
          \<and> repo_CreateSubEntity (repo s) categoryId entityName userId
                (Some (make_if_nil details)) parentEntityID ec = ((sid, perr), ed) \<longrightarrow>
          (\<forall>err. perr = Some err \<longrightarrow>
             CreateSubEntity s categoryId entityName userId details parentEntityID w =
               (([], Some (Errorf_w ''failed to create sub-entity: '' err)),
                w\<lparr>calls := calls w @
                    [Call_GetCategoryIDByEntityID parentEntityID, Call_GetCategoryType pcid,
                     Call_GetCategoryType categoryId,
                     Call_CreateSubEntity categoryId entityName userId
                       (Some (make_if_nil details)) parentEntityID],
                  entity_store := ed\<rparr>))
          \<and> (perr = None \<and> \<not> (ptype = ''user'' \<and> ctype = ''user'') \<longrightarrow>
             CreateSubEntity s categoryId entityName userId details parentEntityID w =
               ((sid, None),
                w\<lparr>calls := calls w @
                    [Call_GetCategoryIDByEntityID parentEntityID, Call_GetCategoryType pcid,
                     Call_GetCategoryType categoryId,
                     Call_CreateSubEntity categoryId entityName userId
                       (Some (make_if_nil details)) parentEntityID],
                  entity_store := ed\<rparr>))
          \<and> (perr = None \<and> ptype = ''user'' \<and> ctype = ''user''
               \<and> (\<forall>subuserID. make_if_nil details ''subuser_id'' \<noteq> Some (AnyString subuserID))
             \<longrightarrow>
             fst (fst (CreateSubEntity s categoryId entityName userId details parentEntityID w))
               = []
             \<and> snd (fst (CreateSubEntity s categoryId entityName userId details parentEntityID w))
                 \<noteq> None
             \<and> snd (CreateSubEntity s categoryId entityName userId details parentEntityID w) =
               w\<lparr>calls := calls w @
                   [Call_GetCategoryIDByEntityID parentEntityID, Call_GetCategoryType pcid,
                    Call_GetCategoryType categoryId,
                    Call_CreateSubEntity categoryId entityName userId
                      (Some (make_if_nil details)) parentEntityID],
                 entity_store := ed\<rparr>)
          \<and> (\<forall>subuserID. perr = None \<and> ptype = ''user'' \<and> ctype = ''user''
               \<and> make_if_nil details ''subuser_id'' = Some (AnyString subuserID) \<longrightarrow>
             fst (CreateSubEntity s categoryId entityName userId details parentEntityID w) =
               (case fst (userRepo s subuserID (Some parentEntityID) (user_store w)) of
                  None \<Rightarrow> (sid, None)
                | Some err \<Rightarrow> ([], Some (Errorf_w ''failed to update user parent ID: '' err)))
             \<and> snd (CreateSubEntity s categoryId entityName userId details parentEntityID w) =
               w\<lparr>calls := calls w @
                   [Call_GetCategoryIDByEntityID parentEntityID, Call_GetCategoryType pcid,
                    Call_GetCategoryType categoryId,
                    Call_CreateSubEntity categoryId entityName userId
                      (Some (make_if_nil details)) parentEntityID,
                    Call_UpdateUserParentID subuserID (Some parentEntityID)],
                 entity_store := ed,
                 user_store :=
                   snd (userRepo s subuserID (Some parentEntityID) (user_store w))\<rparr>)"
  proof (intro allI impI)
    fix sid perr ed
    assume h: "erra = None \<and> errb = None \<and> errc = None
          \<and> repo_CreateSubEntity (repo s) categoryId entityName userId
                (Some (make_if_nil details)) parentEntityID ec = ((sid, perr), ed)"
    with assms have a:
      "repo_GetCategoryIDByEntityID (repo s) parentEntityID (entity_store w) = ((pcid, None), ea)"
      "repo_GetCategoryType (repo s) pcid ea = ((ptype, None), eb)"
      "repo_GetCategoryType (repo s) categoryId eb = ((ctype, None), ec)"
      "repo_CreateSubEntity (repo s) categoryId entityName userId
         (Some (make_if_nil details)) parentEntityID ec = ((sid, perr), ed)"
      by simp_all
    note r = CreateSubEntity_resolved [OF assms(1,2) a]
    show "(\<forall>err. perr = Some err \<longrightarrow>
             CreateSubEntity s categoryId entityName userId details parentEntityID w =
               (([], Some (Errorf_w ''failed to create sub-entity: '' err)),
                w\<lparr>calls := calls w @
                    [Call_GetCategoryIDByEntityID parentEntityID, Call_GetCategoryType pcid,
                     Call_GetCategoryType categoryId,
                     Call_CreateSubEntity categoryId entityName userId
                       (Some (make_if_nil details)) parentEntityID],
                  entity_store := ed\<rparr>))
          \<and> (perr = None \<and> \<not> (ptype = ''user'' \<and> ctype = ''user'') \<longrightarrow>
             CreateSubEntity s categoryId entityName userId details parentEntityID w =
               ((sid, None),
                w\<lparr>calls := calls w @
                    [Call_GetCategoryIDByEntityID parentEntityID, Call_GetCategoryType pcid,
                     Call_GetCategoryType categoryId,
                     Call_CreateSubEntity categoryId entityName userId
                       (Some (make_if_nil details)) parentEntityID],
                  entity_store := ed\<rparr>))
          \<and> (perr = None \<and> ptype = ''user'' \<and> ctype = ''user''
               \<and> (\<forall>subuserID. make_if_nil details ''subuser_id'' \<noteq> Some (AnyString subuserID))
             \<longrightarrow>
             fst (fst (CreateSubEntity s categoryId entityName userId details parentEntityID w))
               = []
             \<and> snd (fst (CreateSubEntity s categoryId entityName userId details parentEntityID w))
                 \<noteq> None
             \<and> snd (CreateSubEntity s categoryId entityName userId details parentEntityID w) =
               w\<lparr>calls := calls w @
                   [Call_GetCategoryIDByEntityID parentEntityID, Call_GetCategoryType pcid,
                    Call_GetCategoryType categoryId,
                    Call_CreateSubEntity categoryId entityName userId
                      (Some (make_if_nil details)) parentEntityID],
                 entity_store := ed\<rparr>)
          \<and> (\<forall>subuserID. perr = None \<and> ptype = ''user'' \<and> ctype = ''user''
               \<and> make_if_nil details ''subuser_id'' = Some (AnyString subuserID) \<longrightarrow>
             fst (CreateSubEntity s categoryId entityName userId details parentEntityID w) =
               (case fst (userRepo s subuserID (Some parentEntityID) (user_store w)) of
                  None \<Rightarrow> (sid, None)
                | Some err \<Rightarrow> ([], Some (Errorf_w ''failed to update user parent ID: '' err)))
             \<and> snd (CreateSubEntity s categoryId entityName userId details parentEntityID w) =
               w\<lparr>calls := calls w @
                   [Call_GetCategoryIDByEntityID parentEntityID, Call_GetCategoryType pcid,
                    Call_GetCategoryType categoryId,
                    Call_CreateSubEntity categoryId entityName userId
                      (Some (make_if_nil details)) parentEntityID,
                    Call_UpdateUserParentID subuserID (Some parentEntityID)],
                 entity_store := ed,
                 user_store :=
                   snd (userRepo s subuserID (Some parentEntityID) (user_store w))\<rparr>)"
      unfolding r
      by (auto simp: Let_def split: option.splits go_any.splits prod.splits)
  qed
  from f1 f2 f3 f4 f5 show ?thesis by blast
qed



theorem CreateSubEntity_order_witness:
  "''c-user'' \<noteq> [] \<and> ''bob'' \<noteq> []
   \<and> CreateSubEntity demo_service ''c-user'' ''bob'' ''u2'' details_u42 ''nope'' demo_world =
       (([], Some (GoError ''failed to get parent's category ID: entity not found''
                     (Some (GoError ''entity not found'' None)))),
        \<lparr>calls = [Call_GetCategoryIDByEntityID ''nope''],
         entity_store = demo_store, user_store = demo_users\<rparr>)
   \<and> CreateSubEntity demo_service ''c-user'' ''bob'' ''u2'' details_u42 ''e7''
         demo_world_no_categories =
       (([], Some (GoError ''failed to get parent's category type: category not found''
                     (Some (GoError ''category not found'' None)))),
        \<lparr>calls = [Call_GetCategoryIDByEntityID ''e7'', Call_GetCategoryType ''c-user''],
         entity_store = entity_store demo_world_no_categories, user_store = demo_users\<rparr>)
   \<and> CreateSubEntity demo_service ''c-nope'' ''bob'' ''u2'' details_u42 ''e7'' demo_world =
       (([], Some (GoError ''failed to get parent's category type: category not found''
                     (Some (GoError ''category not found'' None)))),
        \<lparr>calls = [Call_GetCategoryIDByEntityID ''e7'', Call_GetCategoryType ''c-user'',
                  Call_GetCategoryType ''c-nope''],
         entity_store = demo_store, user_store = demo_users\<rparr>)
   \<and> calls (snd (CreateSubEntity demo_service ''c-user'' ''bob'' ''u2'' details_u42 ''e7''
                    demo_world)) =
       [Call_GetCategoryIDByEntityID ''e7'', Call_GetCategoryType ''c-user'',
        Call_GetCategoryType ''c-user'',
        Call_CreateSubEntity ''c-user'' ''bob'' ''u2'' details_u42 ''e7'',
        Call_UpdateUserParentID ''u42'' (Some ''e7'')]
   \<and> fst (CreateSubEntity demo_service ''c-user'' ''bob'' ''u2'' details_u42 ''e7'' demo_world) =
       (''e99'', None)
   \<and> map ent_id (entities (entity_store
         (snd (CreateSubEntity demo_service ''c-user'' ''bob'' ''u2'' details_u42 ''e7''
                 demo_world)))) = [''e7'', ''e1'', ''e99'']
   \<and> db (user_store
           (snd (CreateSubEntity demo_service ''c-user'' ''bob'' ''u2'' details_u42 ''e7''
                   demo_world))) =
       Some \<lparr>z_users = [\<lparr>user_id = ''u42'', parent_id = Some ''e7'', updated_at = 5\<rparr>],
             clock = 5, exec_failure = None\<rparr>
   \<and> CreateSubEntity demo_service_disk_full ''c-user'' ''bob'' ''u2'' details_u42 ''e7''
         demo_world =
       (([], Some (GoError ''failed to create sub-entity: disk full''
                     (Some (GoError ''disk full'' None)))),
        \<lparr>calls = [Call_GetCategoryIDByEntityID ''e7'', Call_GetCategoryType ''c-user'',
                  Call_GetCategoryType ''c-user'',
                  Call_CreateSubEntity ''c-user'' ''bob'' ''u2'' details_u42 ''e7''],
         entity_store = demo_store, user_store = demo_users\<rparr>)
   \<and> fst (CreateSubEntity demo_service ''c-org'' ''bob'' ''u2'' details_u42 ''e7'' demo_world) =
       (''e99'', None)
   \<and> calls (snd (CreateSubEntity demo_service ''c-org'' ''bob'' ''u2'' details_u42 ''e7''
                    demo_world)) =
       [Call_GetCategoryIDByEntityID ''e7'', Call_GetCategoryType ''c-user'',
        Call_GetCategoryType ''c-org'',
        Call_CreateSubEntity ''c-org'' ''bob'' ''u2'' details_u42 ''e7'']
   \<and> map ent_id (entities (entity_store
         (snd (CreateSubEntity demo_service ''c-org'' ''bob'' ''u2'' details_u42 ''e7''
                 demo_world)))) = [''e7'', ''e1'', ''e99'']
   \<and> user_store
        (snd (CreateSubEntity demo_service ''c-org'' ''bob'' ''u2'' details_u42 ''e7''
                demo_world)) = demo_users"
  using
    CreateSubEntity_order
      [where s = demo_service and w = demo_world and categoryId = "''c-user''"
         and entityName = "''bob''" and userId = "''u2''" and details = details_u42
         and parentEntityID = "''nope''" and pcid = "[]" and erra = "Some (NotFound ''entity'')"
         and ea = demo_store and ptype = "[]" and errb = "Some (NotFound ''category'')"
         and eb = demo_store and ctype = "''user''" and errc = None and ec = demo_store]
    CreateSubEntity_order
      [where s = demo_service and w = demo_world_no_categories and categoryId = "''c-user''"
         and entityName = "''bob''" and userId = "''u2''" and details = details_u42
         and parentEntityID = "''e7''" and pcid = "''c-user''" and erra = None
         and ea = "entity_store demo_world_no_categories"
         and ptype = "[]" and errb = "Some (NotFound ''category'')"
         and eb = "entity_store demo_world_no_categories"
         and ctype = "[]" and errc = "Some (NotFound ''category'')"
         and ec = "entity_store demo_world_no_categories"]
    CreateSubEntity_order
      [where s = demo_service and w = demo_world and categoryId = "''c-nope''"
         and entityName = "''bob''" and userId = "''u2''" and details = details_u42
         and parentEntityID = "''e7''" and pcid = "''c-user''" and erra = None
         and ea = demo_store and ptype = "''user''" and errb = None
         and eb = demo_store and ctype = "[]" and errc = "Some (NotFound ''category'')"
         and ec = demo_store]
    CreateSubEntity_order
      [where s = demo_service and w = demo_world and categoryId = "''c-user''"
         and entityName = "''bob''" and userId = "''u2''" and details = details_u42
         and parentEntityID = "''e7''" and pcid = "''c-user''" and erra = None
         and ea = demo_store and ptype = "''user''" and errb = None
         and eb = demo_store and ctype = "''user''" and errc = None
         and ec = demo_store]
    CreateSubEntity_order
      [where s = demo_service_disk_full and w = demo_world and categoryId = "''c-user''"
         and entityName = "''bob''" and userId = "''u2''" and details = details_u42
         and parentEntityID = "''e7''" and pcid = "''c-user''" and erra = None
         and ea = demo_store and ptype = "''user''" and errb = None
         and eb = demo_store and ctype = "''user''" and errc = None
         and ec = demo_store]
    CreateSubEntity_order
      [where s = demo_service and w = demo_world and categoryId = "''c-org''"
         and entityName = "''bob''" and userId = "''u2''" and details = details_u42
         and parentEntityID = "''e7''" and pcid = "''c-user''" and erra = None
         and ea = demo_store and ptype = "''user''" and errb = None
         and eb = demo_store and ctype = "''organization''" and errc = None
         and ec = demo_store]
  by (simp add: demo_defs CreateSubEntity_def Let_def
           details_u42_def demo_world_no_categories_def demo_service_disk_full_def)

section \<open>Creating a sub-entity: after persistence\<close>

text \<open>
  C3: take a \<open>CreateSubEntity\<close> call whose three resolutions succeeded and whose
  persistence step returned an id and left the entity store in state \<open>ed\<close>. Whatever
  happens afterwards, the entity store at the end of the call is exactly \<open>ed\<close>, and the
  only calls made on the entity repository are the three resolutions and the persistence
  call: nothing deletes or rolls back the persisted entity. If both category types are
  \<open>user\<close> and \<open>subuser_id\<close> is missing from the details, or is present but not a
  string, or the user repository's \<open>UpdateUserParentID\<close> returns an error, the call
  returns that error and no id.
\<close>

theorem CreateSubEntity_no_rollback:
  assumes "categoryId \<noteq> []" and "entityName \<noteq> []"
    and "repo_GetCategoryIDByEntityID (repo s) parentEntityID (entity_store w) = ((pcid, None), ea)"
    and "repo_GetCategoryType (repo s) pcid ea = ((ptype, None), eb)"
    and "repo_GetCategoryType (repo s) categoryId eb = ((ctype, None), ec)"
    and "repo_CreateSubEntity (repo s) categoryId entityName userId (Some (make_if_nil details))
           parentEntityID ec = ((sid, None), ed)"
  shows
    "entity_store (snd (CreateSubEntity s categoryId entityName userId details parentEntityID w))
       = ed
     \<and> filter (\<lambda>c. \<not> is_user_call c)
          (new_calls w
             (snd (CreateSubEntity s categoryId entityName userId details parentEntityID w))) =
          [Call_GetCategoryIDByEntityID parentEntityID, Call_GetCategoryType pcid,
           Call_GetCategoryType categoryId,
           Call_CreateSubEntity categoryId entityName userId (Some (make_if_nil details))
             parentEntityID]
     \<and> (ptype = ''user'' \<and> ctype = ''user'' \<and> make_if_nil details ''subuser_id'' = None \<longrightarrow>
          fst (CreateSubEntity s categoryId entityName userId details parentEntityID w) =
            ([], Some (Errorf_w_string ''subuser_id not found in details : '' ''user'')))
     \<and> (\<forall>v. ptype = ''user'' \<and> ctype = ''user'' \<and> make_if_nil details ''subuser_id'' = Some v
              \<and> (\<forall>str. v \<noteq> AnyString str) \<longrightarrow>
          fst (CreateSubEntity s categoryId entityName userId details parentEntityID w) =
            ([], Some (Errorf ''subuser_id must be a string'')))
     \<and> (\<forall>subuserID err u'. ptype = ''user'' \<and> ctype = ''user''
              \<and> make_if_nil details ''subuser_id'' = Some (AnyString subuserID)
              \<and> userRepo s subuserID (Some parentEntityID) (user_store w) = (Some err, u') \<longrightarrow>
          fst (CreateSubEntity s categoryId entityName userId details parentEntityID w) =
            ([], Some (Errorf_w ''failed to update user parent ID: '' err)))"
  unfolding CreateSubEntity_resolved [OF assms]
  by (auto simp: new_calls_def Let_def split: option.splits go_any.splits prod.splits)

theorem CreateSubEntity_no_rollback_witness:
  "''c-user'' \<noteq> [] \<and> ''bob'' \<noteq> []
   \<and> store_GetCategoryIdForEntity ''e7'' demo_store = ((''c-user'', None), demo_store)
   \<and> store_GetType ''c-user'' demo_store = ((''user'', None), demo_store)
   \<and> fst (store_CreateSub (\<lambda>st. ''e99'') ''c-user'' ''bob'' ''u2'' details_plain ''e7''
             demo_store) = (''e99'', None)
   \<and> fst (CreateSubEntity demo_service ''c-user'' ''bob'' ''u2'' details_plain ''e7'' demo_world)
       = ([], Some (GoError ''subuser_id not found in details : %!w(string=user)'' None))
   \<and> map ent_id (entities (entity_store
         (snd (CreateSubEntity demo_service ''c-user'' ''bob'' ''u2'' details_plain ''e7''
                 demo_world)))) = [''e7'', ''e1'', ''e99'']
   \<and> fst (CreateSubEntity demo_service ''c-user'' ''bob'' ''u2'' details_number ''e7'' demo_world)
       = ([], Some (GoError ''subuser_id must be a string'' None))
   \<and> map ent_id (entities (entity_store
         (snd (CreateSubEntity demo_service ''c-user'' ''bob'' ''u2'' details_number ''e7''
                 demo_world)))) = [''e7'', ''e1'', ''e99'']
   \<and> fst (CreateSubEntity demo_service ''c-user'' ''bob'' ''u2'' details_u42 ''e7''
             demo_world_no_db)
       = ([], Some (GoError
            ''failed to update user parent ID: database connection is not initialized''
            (Some (GoError ''database connection is not initialized'' None))))
   \<and> map ent_id (entities (entity_store
         (snd (CreateSubEntity demo_service ''c-user'' ''bob'' ''u2'' details_u42 ''e7''
                 demo_world_no_db)))) = [''e7'', ''e1'', ''e99'']"
  using
    CreateSubEntity_no_rollback
      [where s = demo_service and w = demo_world and categoryId = "''c-user''"
         and entityName = "''bob''" and userId = "''u2''" and details = details_plain
         and parentEntityID = "''e7''" and pcid = "''c-user''" and ea = demo_store
         and ptype = "''user''" and eb = demo_store and ctype = "''user''" and ec = demo_store
         and sid = "''e99''"
         and ed = "snd (store_CreateSub (\<lambda>st. ''e99'') ''c-user'' ''bob'' ''u2'' details_plain
                          ''e7'' demo_store)"]
    CreateSubEntity_no_rollback
      [where s = demo_service and w = demo_world and categoryId = "''c-user''"
         and entityName = "''bob''" and userId = "''u2''" and details = details_number
         and parentEntityID = "''e7''" and pcid = "''c-user''" and ea = demo_store
         and ptype = "''user''" and eb = demo_store and ctype = "''user''" and ec = demo_store
         and sid = "''e99''"
         and ed = "snd (store_CreateSub (\<lambda>st. ''e99'') ''c-user'' ''bob'' ''u2'' details_number
                          ''e7'' demo_store)"]
    CreateSubEntity_no_rollback
      [where s = demo_service and w = demo_world_no_db and categoryId = "''c-user''"
         and entityName = "''bob''" and userId = "''u2''" and details = details_u42
         and parentEntityID = "''e7''" and pcid = "''c-user''" and ea = demo_store
         and ptype = "''user''" and eb = demo_store and ctype = "''user''" and ec = demo_store
         and sid = "''e99''"
         and ed = "snd (store_CreateSub (\<lambda>st. ''e99'') ''c-user'' ''bob'' ''u2'' details_u42
                          ''e7'' demo_store)"]
  by (simp add: demo_defs CreateSubEntity_def Let_def
           details_plain_def details_number_def details_u42_def demo_world_no_db_def)

text \<open>
  C4, as stated, fails: with the repository whose look-ups work and whose persistence step
  fails, the parent \<open>e7\<close> and the new entity both have a category of type \<open>user\<close>
  and the details carry no \<open>subuser_id\<close>, yet the error returned is the wrapped
  storage error, whose message does not contain "subuser_id not found".
\<close>

theorem CreateSubEntity_subuser_validation_counterexample:
  "fst (repo_GetCategoryIDByEntityID (repo demo_service_disk_full) ''e7'' demo_store) =
     (''c-user'', None)
   \<and> fst (repo_GetCategoryType (repo demo_service_disk_full) ''c-user'' demo_store) =
       (''user'', None)
   \<and> make_if_nil details_plain ''subuser_id'' = None
   \<and> fst (CreateSubEntity demo_service_disk_full ''c-user'' ''bob'' ''u2'' details_plain ''e7''
             demo_world) =
       ([], Some (GoError ''failed to create sub-entity: disk full''
                    (Some (GoError ''disk full'' None))))
   \<and> \<not> sublist ''subuser_id not found'' ''failed to create sub-entity: disk full''"
  by (simp add: demo_defs CreateSubEntity_def Let_def details_plain_def
           demo_service_disk_full_def sublist_Cons_right)

text \<open>
  C4, amended: take a \<open>CreateSubEntity\<close> call that reaches the category-type check,
  that is, whose three resolutions and whose persistence step succeeded, with both the
  parent's and the new entity's category type equal to \<open>user\<close>. If the details have no
  \<open>subuser_id\<close> key, the call returns no id and an error that wraps nothing and whose
  message contains "subuser_id not found". If the value under \<open>subuser_id\<close> is not a
  string, the call returns no id and an error that wraps nothing and whose message contains
  "must be a string". In both cases no call of the user repository is made and the user
  store is as before.
\<close>

theorem CreateSubEntity_subuser_validation:
  assumes "categoryId \<noteq> []" and "entityName \<noteq> []"
    and "repo_GetCategoryIDByEntityID (repo s) parentEntityID (entity_store w) = ((pcid, None), ea)"
    and "repo_GetCategoryType (repo s) pcid ea = ((''user'', None), eb)"
    and "repo_GetCategoryType (repo s) categoryId eb = ((''user'', None), ec)"
    and "repo_CreateSubEntity (repo s) categoryId entityName userId (Some (make_if_nil details))
           parentEntityID ec = ((sid, None), ed)"
  shows
    "(make_if_nil details ''subuser_id'' = None \<longrightarrow>
        (\<exists>err. fst (CreateSubEntity s categoryId entityName userId details parentEntityID w) =
                 ([], Some err)
               \<and> unwrap err = None \<and> sublist ''subuser_id not found'' (message err))
        \<and> \<not> list_ex is_user_call
              (new_calls w
                 (snd (CreateSubEntity s categoryId entityName userId details parentEntityID w)))
        \<and> user_store (snd (CreateSubEntity s categoryId entityName userId details parentEntityID w))
            = user_store w)
     \<and> (\<forall>v. make_if_nil details ''subuser_id'' = Some v \<and> (\<forall>str. v \<noteq> AnyString str) \<longrightarrow>
        (\<exists>err. fst (CreateSubEntity s categoryId entityName userId details parentEntityID w) =
                 ([], Some err)
               \<and> unwrap err = None \<and> sublist ''must be a string'' (message err))
        \<and> \<not> list_ex is_user_call
              (new_calls w
                 (snd (CreateSubEntity s categoryId entityName userId details parentEntityID w)))
        \<and> user_store (snd (CreateSubEntity s categoryId entityName userId details parentEntityID w))
            = user_store w)"
proof -
  have a: "sublist ''subuser_id not found''
             (message (Errorf_w_string ''subuser_id not found in details : '' ''user''))"
    unfolding Errorf_w_string_def by (rule prefix_imp_sublist) simp
  have b: "sublist ''must be a string'' (message (Errorf ''subuser_id must be a string''))"
    unfolding Errorf_def by (rule suffix_imp_sublist) (simp add: suffix_def)
  have c: "unwrap (Errorf_w_string p q) = None" "unwrap (Errorf m) = None" for p q m
    by (simp_all add: Errorf_w_string_def Errorf_def)
  show ?thesis
    unfolding CreateSubEntity_resolved [OF assms]
    using a b c
    by (auto simp: new_calls_def Let_def split: option.splits go_any.splits prod.splits)
qed

theorem CreateSubEntity_subuser_validation_witness:
  "''c-user'' \<noteq> [] \<and> ''bob'' \<noteq> []
   \<and> store_GetCategoryIdForEntity ''e7'' demo_store = ((''c-user'', None), demo_store)
   \<and> store_GetType ''c-user'' demo_store = ((''user'', None), demo_store)
   \<and> fst (store_CreateSub (\<lambda>st. ''e99'') ''c-user'' ''bob'' ''u2'' details_plain ''e7''
             demo_store) = (''e99'', None)
   \<and> make_if_nil details_plain ''subuser_id'' = None
   \<and> make_if_nil details_number ''subuser_id'' = Some (AnyNumber 42)
   \<and> fst (CreateSubEntity demo_service ''c-user'' ''bob'' ''u2'' details_plain ''e7'' demo_world)
       = ([], Some (GoError ''subuser_id not found in details : %!w(string=user)'' None))
   \<and> fst (CreateSubEntity demo_service ''c-user'' ''bob'' ''u2'' details_number ''e7'' demo_world)
       = ([], Some (GoError ''subuser_id must be a string'' None))
   \<and> user_store
        (snd (CreateSubEntity demo_service ''c-user'' ''bob'' ''u2'' details_plain ''e7''
                demo_world)) = demo_users
   \<and> user_store
        (snd (CreateSubEntity demo_service ''c-user'' ''bob'' ''u2'' details_number ''e7''
                demo_world)) = demo_users"
  using
    CreateSubEntity_subuser_validation
      [where s = demo_service and w = demo_world and categoryId = "''c-user''"
         and entityName = "''bob''" and userId = "''u2''" and details = details_plain
         and parentEntityID = "''e7''" and pcid = "''c-user''" and ea = demo_store
         and eb = demo_store and ec = demo_store and sid = "''e99''"
         and ed = "snd (store_CreateSub (\<lambda>st. ''e99'') ''c-user'' ''bob'' ''u2'' details_plain
                          ''e7'' demo_store)"]
    CreateSubEntity_subuser_validation
      [where s = demo_service and w = demo_world and categoryId = "''c-user''"
         and entityName = "''bob''" and userId = "''u2''" and details = details_number
         and parentEntityID = "''e7''" and pcid = "''c-user''" and ea = demo_store
         and eb = demo_store and ec = demo_store and sid = "''e99''"
         and ed = "snd (store_CreateSub (\<lambda>st. ''e99'') ''c-user'' ''bob'' ''u2'' details_number
                          ''e7'' demo_store)"]
  by (simp add: demo_defs CreateSubEntity_def Let_def
           details_plain_def details_number_def)

section \<open>Creating a sub-entity: the cross-link\<close>

text \<open>
  C1, as stated, fails: in the small installation the parent \<open>e7\<close> has a category of
  type \<open>user\<close>, the new entity's category \<open>c-user\<close> has type \<open>user\<close>, the store
  works, and yet with details that carry no \<open>subuser_id\<close> the user repository is not
  called at all.
\<close>

theorem CreateSubEntity_cross_link_iff_counterexample:
  "fst (store_GetCategoryIdForEntity ''e7'' demo_store) = (''c-user'', None)
   \<and> fst (store_GetType ''c-user'' demo_store) = (''user'', None)
   \<and> \<not> list_ex is_user_call
         (calls (snd (CreateSubEntity demo_service ''c-user'' ''bob'' ''u2'' details_plain ''e7''
                        demo_world)))"
  by (simp add: demo_defs CreateSubEntity_def Let_def
           details_plain_def)

text \<open>
  C1, amended: for every \<open>CreateSubEntity\<close> call, the user repository is called only if
  the three resolutions succeeded with both category types equal to \<open>user\<close>, the
  persistence step succeeded and the details carry a string under \<open>subuser_id\<close>. And
  for a call whose resolutions and persistence step succeeded, the calls of the user
  repository are: exactly one \<open>UpdateUserParentID\<close> with that string and the supplied
  parent entity id, if both category types are \<open>user\<close> and \<open>subuser_id\<close> is a string;
  none otherwise, in particular none when either category type is not \<open>user\<close>,
  whatever the details are.
\<close>

theorem CreateSubEntity_cross_link_calls:
  "(list_ex is_user_call
      (new_calls w (snd (CreateSubEntity s categoryId entityName userId details parentEntityID w)))
    \<longrightarrow>
      (\<exists>pcid ea eb ec sid ed subuserID.
         repo_GetCategoryIDByEntityID (repo s) parentEntityID (entity_store w) = ((pcid, None), ea)
         \<and> repo_GetCategoryType (repo s) pcid ea = ((''user'', None), eb)
         \<and> repo_GetCategoryType (repo s) categoryId eb = ((''user'', None), ec)
         \<and> repo_CreateSubEntity (repo s) categoryId entityName userId
               (Some (make_if_nil details)) parentEntityID ec = ((sid, None), ed)
         \<and> make_if_nil details ''subuser_id'' = Some (AnyString subuserID)))
   \<and> (categoryId \<noteq> [] \<and> entityName \<noteq> []
        \<and> repo_GetCategoryIDByEntityID (repo s) parentEntityID (entity_store w) = ((pcid, None), ea)
        \<and> repo_GetCategoryType (repo s) pcid ea = ((ptype, None), eb)
        \<and> repo_GetCategoryType (repo s) categoryId eb = ((ctype, None), ec)
        \<and> repo_CreateSubEntity (repo s) categoryId entityName userId
              (Some (make_if_nil details)) parentEntityID ec = ((sid, None), ed)
      \<longrightarrow>
        filter is_user_call
          (new_calls w
             (snd (CreateSubEntity s categoryId entityName userId details parentEntityID w))) =
          (if ptype = ''user'' \<and> ctype = ''user'' then
             (case make_if_nil details ''subuser_id'' of
                Some (AnyString subuserID) \<Rightarrow>
                  [Call_UpdateUserParentID subuserID (Some parentEntityID)]
              | _ \<Rightarrow> [])
           else []))"
proof (intro conjI impI)
  assume ex: "list_ex is_user_call
      (new_calls w (snd (CreateSubEntity s categoryId entityName userId details parentEntityID w)))"
  have v: "categoryId \<noteq> []" "entityName \<noteq> []"
    using ex CreateSubEntity_invalid [of categoryId entityName s userId details parentEntityID w]
    by auto
  obtain p_cid p_err p_e where r1:
    "repo_GetCategoryIDByEntityID (repo s) parentEntityID (entity_store w) = ((p_cid, p_err), p_e)"
    by (metis surj_pair)
  obtain p_type q_err q_e where r2:
    "repo_GetCategoryType (repo s) p_cid p_e = ((p_type, q_err), q_e)"
    by (metis surj_pair)
  obtain c_type c_err c_e where r3:
    "repo_GetCategoryType (repo s) categoryId q_e = ((c_type, c_err), c_e)"
    by (metis surj_pair)
  obtain s_id s_err s_e where r4:
    "repo_CreateSubEntity (repo s) categoryId entityName userId (Some (make_if_nil details))
       parentEntityID c_e = ((s_id, s_err), s_e)"
    by (metis surj_pair)
  have n1: "p_err = None"
  proof (cases p_err)
    case (Some err)
    from ex show ?thesis
      by (simp add: CreateSubEntity_fail_parent_category [OF v r1 [unfolded Some]])
  qed simp
  have n2: "q_err = None"
  proof (cases q_err)
    case (Some err)
    from ex show ?thesis
      by (simp add: CreateSubEntity_fail_parent_type [OF v r1 [unfolded n1] r2 [unfolded Some]])
  qed simp
  have n3: "c_err = None"
  proof (cases c_err)
    case (Some err)
    from ex show ?thesis
      by (simp add: CreateSubEntity_fail_current_type
                      [OF v r1 [unfolded n1] r2 [unfolded n2] r3 [unfolded Some]])
  qed simp
  note r = CreateSubEntity_resolved [OF v r1 [unfolded n1] r2 [unfolded n2] r3 [unfolded n3] r4]
  from ex have
    "s_err = None \<and> p_type = ''user'' \<and> c_type = ''user''
     \<and> (\<exists>subuserID. make_if_nil details ''subuser_id'' = Some (AnyString subuserID))"
    unfolding r
    by (auto simp: new_calls_def Let_def split: option.splits go_any.splits prod.splits if_splits)
  with r1 r2 r3 r4 n1 n2 n3
  show "\<exists>pcid ea eb ec sid ed subuserID.
         repo_GetCategoryIDByEntityID (repo s) parentEntityID (entity_store w) = ((pcid, None), ea)
         \<and> repo_GetCategoryType (repo s) pcid ea = ((''user'', None), eb)
         \<and> repo_GetCategoryType (repo s) categoryId eb = ((''user'', None), ec)
         \<and> repo_CreateSubEntity (repo s) categoryId entityName userId
               (Some (make_if_nil details)) parentEntityID ec = ((sid, None), ed)
         \<and> make_if_nil details ''subuser_id'' = Some (AnyString subuserID)"
    by auto
next
  assume a: "categoryId \<noteq> [] \<and> entityName \<noteq> []
        \<and> repo_GetCategoryIDByEntityID (repo s) parentEntityID (entity_store w) = ((pcid, None), ea)
        \<and> repo_GetCategoryType (repo s) pcid ea = ((ptype, None), eb)
        \<and> repo_GetCategoryType (repo s) categoryId eb = ((ctype, None), ec)
        \<and> repo_CreateSubEntity (repo s) categoryId entityName userId
              (Some (make_if_nil details)) parentEntityID ec = ((sid, None), ed)"
  then have v: "categoryId \<noteq> []" "entityName \<noteq> []"
    and r1: "repo_GetCategoryIDByEntityID (repo s) parentEntityID (entity_store w) =
               ((pcid, None), ea)"
    and r2: "repo_GetCategoryType (repo s) pcid ea = ((ptype, None), eb)"
    and r3: "repo_GetCategoryType (repo s) categoryId eb = ((ctype, None), ec)"
    and r4: "repo_CreateSubEntity (repo s) categoryId entityName userId
              (Some (make_if_nil details)) parentEntityID ec = ((sid, None), ed)"
    by simp_all
  note r = CreateSubEntity_resolved [OF v r1 r2 r3 r4]
  show "filter is_user_call
          (new_calls w
             (snd (CreateSubEntity s categoryId entityName userId details parentEntityID w))) =
          (if ptype = ''user'' \<and> ctype = ''user'' then
             (case make_if_nil details ''subuser_id'' of
                Some (AnyString subuserID) \<Rightarrow>
                  [Call_UpdateUserParentID subuserID (Some parentEntityID)]
              | _ \<Rightarrow> [])
           else [])"
    unfolding r
    by (auto simp: new_calls_def Let_def split: option.splits go_any.splits prod.splits)
qed

theorem CreateSubEntity_cross_link_calls_witness:
  "''c-user'' \<noteq> [] \<and> ''c-org'' \<noteq> [] \<and> ''bob'' \<noteq> []
   \<and> store_GetCategoryIdForEntity ''e7'' demo_store = ((''c-user'', None), demo_store)
   \<and> store_GetType ''c-user'' demo_store = ((''user'', None), demo_store)
   \<and> store_GetType ''c-org'' demo_store = ((''organization'', None), demo_store)
   \<and> fst (store_CreateSub (\<lambda>st. ''e99'') ''c-user'' ''bob'' ''u2'' details_u42 ''e7''
             demo_store) = (''e99'', None)
   \<and> fst (store_CreateSub (\<lambda>st. ''e99'') ''c-org'' ''bob'' ''u2'' details_u42 ''e7''
             demo_store) = (''e99'', None)
   \<and> list_ex is_user_call
        (new_calls demo_world
           (snd (CreateSubEntity demo_service ''c-user'' ''bob'' ''u2'' details_u42 ''e7''
                   demo_world)))
   \<and> filter is_user_call
        (new_calls demo_world
           (snd (CreateSubEntity demo_service ''c-user'' ''bob'' ''u2'' details_u42 ''e7''
                   demo_world))) = [Call_UpdateUserParentID ''u42'' (Some ''e7'')]
   \<and> filter is_user_call
        (new_calls demo_world
           (snd (CreateSubEntity demo_service ''c-org'' ''bob'' ''u2'' details_u42 ''e7''
                   demo_world))) = []"
  using
    CreateSubEntity_cross_link_calls
      [where s = demo_service and w = demo_world and categoryId = "''c-user''"
         and entityName = "''bob''" and userId = "''u2''" and details = details_u42
         and parentEntityID = "''e7''" and pcid = "''c-user''" and ea = demo_store
         and ptype = "''user''" and eb = demo_store and ctype = "''user''" and ec = demo_store
         and sid = "''e99''"
         and ed = "snd (store_CreateSub (\<lambda>st. ''e99'') ''c-user'' ''bob'' ''u2'' details_u42
                          ''e7'' demo_store)"]
    CreateSubEntity_cross_link_calls
      [where s = demo_service and w = demo_world and categoryId = "''c-org''"
         and entityName = "''bob''" and userId = "''u2''" and details = details_u42
         and parentEntityID = "''e7''" and pcid = "''c-user''" and ea = demo_store
         and ptype = "''user''" and eb = demo_store and ctype = "''organization''"
         and ec = demo_store and sid = "''e99''"
         and ed = "snd (store_CreateSub (\<lambda>st. ''e99'') ''c-org'' ''bob'' ''u2'' details_u42
                          ''e7'' demo_store)"]
  by (simp add: demo_defs CreateSubEntity_def Let_def
           details_u42_def)

text \<open>
  C2, as stated, fails: in the small installation a sub-entity created under \<open>e7\<close> with
  \<open>subuser_id = u42\<close> gets the new id \<open>e99\<close>, and afterwards the parent pointer of
  user \<open>u42\<close> is \<open>e7\<close>, the supplied parent entity id, not \<open>e99\<close>.
\<close>

theorem CreateSubEntity_parent_pointer_counterexample:
  "fst (CreateSubEntity demo_service ''c-user'' ''bob'' ''u2'' details_u42 ''e7'' demo_world) =
     (''e99'', None)
   \<and> user_store
        (snd (CreateSubEntity demo_service ''c-user'' ''bob'' ''u2'' details_u42 ''e7''
                demo_world)) =
       \<lparr>db = Some \<lparr>z_users = [\<lparr>user_id = ''u42'', parent_id = Some ''e7'', updated_at = 5\<rparr>],
                   clock = 5, exec_failure = None\<rparr>,
        log_output = [''ERROR: r.db is nil in UpdateUserParentID!'']\<rparr>
   \<and> ''e7'' \<noteq> ''e99''"
  by (simp add: demo_defs CreateSubEntity_def Let_def
           details_u42_def)

text \<open>
  C2, amended: take a \<open>CreateSubEntity\<close> call whose resolutions and persistence step
  succeeded, with both category types equal to \<open>user\<close> and a string \<open>subuserID\<close> under
  \<open>subuser_id\<close>. Then the user store at the end of the call is what the user repository's
  \<open>UpdateUserParentID\<close> makes of it when asked to set the parent of \<open>subuserID\<close> to the
  supplied parent entity id. With the repository's own \<open>UpdateUserParentID\<close> over a pool
  that runs the statement, every row of \<open>z_users\<close> with that user id has the supplied
  parent entity id as its \<open>parent_id\<close> afterwards, and the other rows are as before.
\<close>

theorem CreateSubEntity_sets_parent_pointer:
  assumes "categoryId \<noteq> []" and "entityName \<noteq> []"
    and "repo_GetCategoryIDByEntityID (repo s) parentEntityID (entity_store w) = ((pcid, None), ea)"
    and "repo_GetCategoryType (repo s) pcid ea = ((''user'', None), eb)"
    and "repo_GetCategoryType (repo s) categoryId eb = ((''user'', None), ec)"
    and "repo_CreateSubEntity (repo s) categoryId entityName userId (Some (make_if_nil details))
           parentEntityID ec = ((sid, None), ed)"
    and "make_if_nil details ''subuser_id'' = Some (AnyString subuserID)"
  shows
    "user_store (snd (CreateSubEntity s categoryId entityName userId details parentEntityID w)) =
       snd (userRepo s subuserID (Some parentEntityID) (user_store w))
     \<and> (userRepo s = UpdateUserParentID \<and> db (user_store w) = Some pool
          \<and> exec_failure pool = None \<longrightarrow>
        db (user_store
              (snd (CreateSubEntity s categoryId entityName userId details parentEntityID w))) =
          Some (pool\<lparr>z_users :=
                  map (\<lambda>row. if user_id row = subuserID
                             then row\<lparr>parent_id := Some parentEntityID,
                                      updated_at := clock pool\<rparr>
                             else row)
                      (z_users pool)\<rparr>))"
proof -
  have u: "user_store (snd (CreateSubEntity s categoryId entityName userId details parentEntityID w))
             = snd (userRepo s subuserID (Some parentEntityID) (user_store w))"
    unfolding CreateSubEntity_resolved [OF assms(1-6)]
    using assms(7) by (simp add: Let_def split: option.splits prod.splits)
  show ?thesis
    unfolding u
    by (simp add: UpdateUserParentID_def Exec_update_parent_id_def log_Println_def Let_def)
qed

theorem CreateSubEntity_sets_parent_pointer_witness:
  "''c-user'' \<noteq> [] \<and> ''bob'' \<noteq> []
   \<and> store_GetCategoryIdForEntity ''e7'' demo_store = ((''c-user'', None), demo_store)
   \<and> store_GetType ''c-user'' demo_store = ((''user'', None), demo_store)
   \<and> fst (store_CreateSub (\<lambda>st. ''e99'') ''c-user'' ''bob'' ''u2'' details_u42 ''e7''
             demo_store) = (''e99'', None)
   \<and> make_if_nil details_u42 ''subuser_id'' = Some (AnyString ''u42'')
   \<and> userRepo demo_service = UpdateUserParentID
   \<and> exec_failure \<lparr>z_users = [\<lparr>user_id = ''u42'', parent_id = None, updated_at = 0\<rparr>],
                    clock = 5, exec_failure = None\<rparr> = None
   \<and> db (user_store
           (snd (CreateSubEntity demo_service ''c-user'' ''bob'' ''u2'' details_u42 ''e7''
                   demo_world))) =
       Some \<lparr>z_users = [\<lparr>user_id = ''u42'', parent_id = Some ''e7'', updated_at = 5\<rparr>],
             clock = 5, exec_failure = None\<rparr>"
  using
    CreateSubEntity_sets_parent_pointer
      [where s = demo_service and w = demo_world and categoryId = "''c-user''"
         and entityName = "''bob''" and userId = "''u2''" and details = details_u42
         and parentEntityID = "''e7''" and pcid = "''c-user''" and ea = demo_store
         and eb = demo_store and ec = demo_store and sid = "''e99''"
         and ed = "snd (store_CreateSub (\<lambda>st. ''e99'') ''c-user'' ''bob'' ''u2'' details_u42
                          ''e7'' demo_store)"
         and subuserID = "''u42''"
         and pool = "\<lparr>z_users = [\<lparr>user_id = ''u42'', parent_id = None, updated_at = 0\<rparr>],
                       clock = 5, exec_failure = None\<rparr>"]
  by (simp add: demo_defs CreateSubEntity_def Let_def
           details_u42_def)

section \<open>Creating a root entity\<close>



section \<open>Re-parenting a user that does not exist\<close>

text \<open>
  C9: when the pool is there and runs the statement, and no row of \<open>z_users\<close> has the
  given user id, \<open>UpdateUserParentID\<close> returns no error; the table is as before and the
  only trace is two log lines, the second being the warning that no user was found.
  Consequently a \<open>CreateSubEntity\<close> call that reaches the cross-link with both category
  types \<open>user\<close> and names such a user in \<open>subuser_id\<close> returns the new entity's id and
  no error, after the same five collaborator calls as a successful re-parenting.
\<close>

theorem UpdateUserParentID_missing_user:
  assumes "db r = Some pool" and "exec_failure pool = None"
    and "\<not> list_ex (\<lambda>row. user_id row = userID) (z_users pool)"
  shows
    "UpdateUserParentID userID parentID r =
       (None,
        r\<lparr>log_output := log_output r @
             [''ERROR: r.db is nil in UpdateUserParentID!'',
              ''Warning: No user found with ID '' @ userID @ '' to update parent_id'']\<rparr>)
     \<and> (categoryId \<noteq> [] \<and> entityName \<noteq> []
          \<and> userRepo s = UpdateUserParentID \<and> user_store w = r
          \<and> repo_GetCategoryIDByEntityID (repo s) parentEntityID (entity_store w) =
              ((pcid, None), ea)
          \<and> repo_GetCategoryType (repo s) pcid ea = ((''user'', None), eb)
          \<and> repo_GetCategoryType (repo s) categoryId eb = ((''user'', None), ec)
          \<and> repo_CreateSubEntity (repo s) categoryId entityName userId
                (Some (make_if_nil details)) parentEntityID ec = ((sid, None), ed)
          \<and> make_if_nil details ''subuser_id'' = Some (AnyString userID) \<longrightarrow>
        CreateSubEntity s categoryId entityName userId details parentEntityID w =
          ((sid, None),
           w\<lparr>calls := calls w @
               [Call_GetCategoryIDByEntityID parentEntityID, Call_GetCategoryType pcid,
                Call_GetCategoryType categoryId,
                Call_CreateSubEntity categoryId entityName userId (Some (make_if_nil details))
                  parentEntityID,
                Call_UpdateUserParentID userID (Some parentEntityID)],
             entity_store := ed,
             user_store :=
               r\<lparr>log_output := log_output r @
                    [''ERROR: r.db is nil in UpdateUserParentID!'',
                     ''Warning: No user found with ID '' @ userID @ '' to update parent_id'']\<rparr>\<rparr>))"
proof -
  have upd: "UpdateUserParentID userID p r =
       (None,
        r\<lparr>log_output := log_output r @
             [''ERROR: r.db is nil in UpdateUserParentID!'',
              ''Warning: No user found with ID '' @ userID @ '' to update parent_id'']\<rparr>)" for p
    using assms(1,2) count_no_match [OF assms(3)] update_no_match [OF assms(3)]
    by (simp add: UpdateUserParentID_def Exec_update_parent_id_def log_Println_def Let_def)
  show ?thesis
  proof (intro conjI impI)
    show "UpdateUserParentID userID parentID r =
       (None,
        r\<lparr>log_output := log_output r @
             [''ERROR: r.db is nil in UpdateUserParentID!'',
              ''Warning: No user found with ID '' @ userID @ '' to update parent_id'']\<rparr>)"
      by (rule upd)
  next
    assume a: "categoryId \<noteq> [] \<and> entityName \<noteq> []
          \<and> userRepo s = UpdateUserParentID \<and> user_store w = r
          \<and> repo_GetCategoryIDByEntityID (repo s) parentEntityID (entity_store w) =
              ((pcid, None), ea)
          \<and> repo_GetCategoryType (repo s) pcid ea = ((''user'', None), eb)
          \<and> repo_GetCategoryType (repo s) categoryId eb = ((''user'', None), ec)
          \<and> repo_CreateSubEntity (repo s) categoryId entityName userId
                (Some (make_if_nil details)) parentEntityID ec = ((sid, None), ed)
          \<and> make_if_nil details ''subuser_id'' = Some (AnyString userID)"
    then have v: "categoryId \<noteq> []" "entityName \<noteq> []"
      and r1: "repo_GetCategoryIDByEntityID (repo s) parentEntityID (entity_store w) =
                 ((pcid, None), ea)"
      and r2: "repo_GetCategoryType (repo s) pcid ea = ((''user'', None), eb)"
      and r3: "repo_GetCategoryType (repo s) categoryId eb = ((''user'', None), ec)"
      and r4: "repo_CreateSubEntity (repo s) categoryId entityName userId
                (Some (make_if_nil details)) parentEntityID ec = ((sid, None), ed)"
      and d: "make_if_nil details ''subuser_id'' = Some (AnyString userID)"
      and u: "userRepo s = UpdateUserParentID" "user_store w = r"
      by simp_all
    show "CreateSubEntity s categoryId entityName userId details parentEntityID w =
          ((sid, None),
           w\<lparr>calls := calls w @
               [Call_GetCategoryIDByEntityID parentEntityID, Call_GetCategoryType pcid,
                Call_GetCategoryType categoryId,
                Call_CreateSubEntity categoryId entityName userId (Some (make_if_nil details))
                  parentEntityID,
                Call_UpdateUserParentID userID (Some parentEntityID)],
             entity_store := ed,
             user_store :=
               r\<lparr>log_output := log_output r @
                    [''ERROR: r.db is nil in UpdateUserParentID!'',
                     ''Warning: No user found with ID '' @ userID @ '' to update parent_id'']\<rparr>\<rparr>)"
      unfolding CreateSubEntity_resolved [OF v r1 r2 r3 r4]
      by (simp add: d u upd Let_def)
  qed
qed

theorem UpdateUserParentID_missing_user_witness:
  "db demo_users =
     Some \<lparr>z_users = [\<lparr>user_id = ''u42'', parent_id = None, updated_at = 0\<rparr>],
           clock = 5, exec_failure = None\<rparr>
   \<and> \<not> list_ex (\<lambda>row. user_id row = ''u77'')
         [\<lparr>user_id = ''u42'', parent_id = None, updated_at = 0\<rparr>]
   \<and> make_if_nil details_u77 ''subuser_id'' = Some (AnyString ''u77'')
   \<and> UpdateUserParentID ''u77'' (Some ''e7'') demo_users =
       (None,
        \<lparr>db = db demo_users,
         log_output = [''ERROR: r.db is nil in UpdateUserParentID!'',
                       ''Warning: No user found with ID u77 to update parent_id'']\<rparr>)
   \<and> fst (CreateSubEntity demo_service ''c-user'' ''bob'' ''u2'' details_u77 ''e7'' demo_world) =
       (''e99'', None)
   \<and> calls (snd (CreateSubEntity demo_service ''c-user'' ''bob'' ''u2'' details_u77 ''e7''
                    demo_world)) =
       [Call_GetCategoryIDByEntityID ''e7'', Call_GetCategoryType ''c-user'',
        Call_GetCategoryType ''c-user'',
        Call_CreateSubEntity ''c-user'' ''bob'' ''u2'' details_u77 ''e7'',
        Call_UpdateUserParentID ''u77'' (Some ''e7'')]"
  using
    UpdateUserParentID_missing_user
      [where r = demo_users
         and pool = "\<lparr>z_users = [\<lparr>user_id = ''u42'', parent_id = None, updated_at = 0\<rparr>],
                       clock = 5, exec_failure = None\<rparr>"
         and userID = "''u77''" and parentID = "Some ''e7''"
         and s = demo_service and w = demo_world and categoryId = "''c-user''"
         and entityName = "''bob''" and userId = "''u2''" and details = details_u77
         and parentEntityID = "''e7''" and pcid = "''c-user''" and ea = demo_store
         and eb = demo_store and ec = demo_store and sid = "''e99''"
         and ed = "snd (store_CreateSub (\<lambda>st. ''e99'') ''c-user'' ''bob'' ''u2'' details_u77
                          ''e7'' demo_store)"]
  by (simp add: demo_defs CreateSubEntity_def Let_def
           details_u77_def)

end
